theory Spec2Isabelle
  imports
    Main
    "HOL-Library.Word"
    "HOL-Library.Signed_Division"
    "HOL-Library.AList"
    "HOL-Library.Multiset"
begin

section \<open>Data model of pkg/noderesources/allocatable.go\<close>

text \<open>
  Go's \<open>int64\<close> is a 64-bit two's complement word: \<open>+\<close>, \<open>-\<close> and \<open>*\<close> wrap around,
  comparisons are signed (\<open><s\<close>, \<open>\<le>s\<close>), \<open>sint\<close> reads the mathematical value.
\<close>

type_synonym int64 = "64 word"

type_synonym ResourceName = string

text \<open>
  Modelled from the spec: the constants \<open>config.Least\<close> and \<open>config.Most\<close> are declared
  in another package; the configuration payload spells the two modes "Least" and "Most".
  \<open>config.ModeType\<close> is a Go string type, so its zero value is the empty string.
\<close>

type_synonym ModeType = string

definition config_Least :: ModeType where
  "config_Least = ''Least''"

definition config_Most :: ModeType where
  "config_Most = ''Most''"

text \<open>
  Errors as values. \<open>WrongArgsType\<close> carries the dynamic type printed by \<open>%T\<close>,
  \<open>InvalidWeight\<close> the resource name and the weight printed by the message
  "resource Weight of %v should be a positive value, got %v", and \<open>DivideByZero\<close> is the
  run-time panic of an integer division whose divisor is zero.
\<close>

datatype error =
    WrongArgsType string
  | InvalidWeight string int64
  | DivideByZero

record ResourceSpec =
  Name :: string
  Weight :: int64

record NodeResourcesAllocatableArgs =
  Resources :: "ResourceSpec list"
  Mode :: ModeType

text \<open>
  \<open>runtime.Object\<close> is an interface; the type assertion in \<open>NewAllocatable\<close> only
  distinguishes a \<open>*config.NodeResourcesAllocatableArgs\<close> from any other dynamic type.
  A nil interface value is \<open>None\<close> of \<open>runtime_Object option\<close>.
\<close>

datatype runtime_Object =
    AllocatableArgs NodeResourcesAllocatableArgs
  | OtherObject string

text \<open>
  \<open>resourceToWeightMap\<close> is a Go map from resource name to weight. Its entries are kept
  as an association list with one entry per key; the order of the list stands for one
  order in which \<open>range\<close> may visit the entries. \<open>resourceToValueMap\<close> is only ever
  indexed; indexing a Go map at an absent key gives the zero value.
\<close>

type_synonym resourceToWeightMap = "(ResourceName \<times> int64) list"

type_synonym resourceToValueMap = "ResourceName \<rightharpoonup> int64"

definition valueAt :: "resourceToValueMap \<Rightarrow> ResourceName \<Rightarrow> int64" where
  "valueAt m resource = (case m resource of None \<Rightarrow> 0 | Some v \<Rightarrow> v)"

text \<open>\<open>framework.NodeScore\<close>: the node's name and its score.\<close>

record NodeScore =
  NodeName :: string
  Score :: int64

text \<open>
  The fields of \<open>Allocatable\<close> that the scoring uses: the embedded
  \<open>resourceAllocationScorer\<close> with its name, its scorer closure and its map.
\<close>

record Allocatable =
  PluginName :: string
  scorer :: "resourceToValueMap \<Rightarrow> resourceToValueMap \<Rightarrow> error + int64"
  resourceToWeightMap :: resourceToWeightMap

definition AllocatableName :: string where
  "AllocatableName = ''NodeResourcesAllocatable''"

definition MaxInt64 :: int64 where
  "MaxInt64 = 9223372036854775807"

text \<open>
  Modelled from the spec: \<open>framework.MinNodeScore\<close> and \<open>framework.MaxNodeScore\<close> are
  constants of the scheduling framework, declared outside the file; the score range of
  the scenarios is 0 to 100.
\<close>

definition MinNodeScore :: int64 where
  "MinNodeScore = 0"

definition MaxNodeScore :: int64 where
  "MaxNodeScore = 100"

section \<open>Integer division of Go\<close>

text \<open>
  The quotient of two \<open>int64\<close> values truncates towards zero; the one quotient that
  does not fit, the most negative value divided by \<open>-1\<close>, wraps around to the most
  negative value. \<open>quo\<close> is the quotient for a divisor that is not zero, \<open>go_div\<close>
  adds the panic for a zero divisor.
\<close>

definition quo :: "int64 \<Rightarrow> int64 \<Rightarrow> int64" where
  "quo a b = word_of_int (sint a sdiv sint b)"

definition go_div :: "int64 \<Rightarrow> int64 \<Rightarrow> error + int64" where
  "go_div a b = (if b = 0 then Inl DivideByZero else Inr (quo a b))"

section \<open>Validation\<close>

fun validateResources :: "ResourceSpec list \<Rightarrow> error option" where
  "validateResources [] = None"
| "validateResources (resource # rest) =
     (if Weight resource \<le>s 0 then Some (InvalidWeight (Name resource) (Weight resource))
      else validateResources rest)"

text \<open>
  Modelled from the spec: \<open>validation.ValidateNodeResourcesAllocatableArgs\<close> is declared
  in another package. The one failure condition of the validation is a supplied weight
  that is not positive, and the failure names the offending resource and its weight;
  that is the check \<open>validateResources\<close> of this file makes.
\<close>

definition ValidateNodeResourcesAllocatableArgs :: "NodeResourcesAllocatableArgs \<Rightarrow> error option" where
  "ValidateNodeResourcesAllocatableArgs args = validateResources (Resources args)"

section \<open>The per-node scorer\<close>

definition score :: "int64 \<Rightarrow> ModeType \<Rightarrow> int64" where
  "score capacity mode =
     (if mode = config_Least then - 1 * capacity
      else if mode = config_Most then capacity
      else 0)"

text \<open>
  The loop of \<open>resourceScorer\<close> over the entries of the map, with its two accumulators
  \<open>nodeScore\<close> and \<open>weightSum\<close>.
\<close>

fun scorerLoop ::
  "resourceToValueMap \<Rightarrow> ModeType \<Rightarrow> resourceToWeightMap \<Rightarrow> int64 \<times> int64 \<Rightarrow> int64 \<times> int64" where
  "scorerLoop allocable mode [] acc = acc"
| "scorerLoop allocable mode ((resource, weight) # rest) (nodeScore, weightSum) =
     scorerLoop allocable mode rest
       (nodeScore + score (valueAt allocable resource) mode * weight, weightSum + weight)"

definition resourceScorer ::
  "resourceToWeightMap \<Rightarrow> ModeType \<Rightarrow> resourceToValueMap \<Rightarrow> resourceToValueMap \<Rightarrow> error + int64" where
  "resourceScorer resToWeightMap mode requested allocable =
     (case scorerLoop allocable mode resToWeightMap (0, 0) of
        (nodeScore, weightSum) \<Rightarrow> go_div nodeScore weightSum)"

section \<open>Construction\<close>

text \<open>
  \<open>defaultResourcesToWeightMap\<close> is a package variable declared in another file; it is
  the first argument here. The loop over \<open>args.Resources\<close> stores each weight under its
  name, a later entry of the same name replacing the earlier one.
\<close>

definition mkAllocatable :: "resourceToWeightMap \<Rightarrow> ModeType \<Rightarrow> Allocatable" where
  "mkAllocatable resToWeightMap mode =
     \<lparr> PluginName = AllocatableName,
       scorer = resourceScorer resToWeightMap mode,
       resourceToWeightMap = resToWeightMap \<rparr>"

fun storeResources :: "ResourceSpec list \<Rightarrow> resourceToWeightMap \<Rightarrow> resourceToWeightMap" where
  "storeResources [] resToWeightMap = resToWeightMap"
| "storeResources (resource # rest) resToWeightMap =
     storeResources rest (AList.update (Name resource) (Weight resource) resToWeightMap)"

definition NewAllocatable :: "resourceToWeightMap \<Rightarrow> runtime_Object option \<Rightarrow> error + Allocatable" where
  "NewAllocatable defaultResourcesToWeightMap allocArgs =
     (case allocArgs of
        None \<Rightarrow> Inr (mkAllocatable defaultResourcesToWeightMap '''')
      | Some (OtherObject t) \<Rightarrow> Inl (WrongArgsType t)
      | Some (AllocatableArgs args0) \<Rightarrow>
          (let args = (if Mode args0 = '''' then args0\<lparr>Mode := config_Least\<rparr> else args0) in
           case ValidateNodeResourcesAllocatableArgs args of
             Some err \<Rightarrow> Inl err
           | None \<Rightarrow>
               Inr (mkAllocatable
                     (if 0 < length (Resources args) then storeResources (Resources args) []
                      else defaultResourcesToWeightMap)
                     (Mode args))))"

section \<open>Normalisation\<close>

text \<open>
  The first loop of \<open>NormalizeScore\<close> finds the highest and the lowest score, starting
  from \<open>-math.MaxInt64\<close> and \<open>math.MaxInt64\<close>. The second loop rewrites every element
  from its own old score: \<open>rescale\<close> is the body of that loop, with \<open>oldRange\<close> the
  difference \<open>highest - lowest\<close> and \<open>newRange\<close> the difference of the two framework
  constants; the division is only reached with a divisor that is not zero. The status
  returned is always nil, so the result is the rewritten list.
\<close>

fun findHighestLowest :: "NodeScore list \<Rightarrow> int64 \<times> int64 \<Rightarrow> int64 \<times> int64" where
  "findHighestLowest [] acc = acc"
| "findHighestLowest (nodeScore # rest) (highest, lowest) =
     findHighestLowest rest
       (if highest <s Score nodeScore then Score nodeScore else highest,
        if Score nodeScore <s lowest then Score nodeScore else lowest)"

definition rescale :: "int64 \<Rightarrow> int64 \<Rightarrow> int64 \<Rightarrow> int64" where
  "rescale lowest oldRange s =
     (if oldRange = 0 then MinNodeScore
      else quo ((s - lowest) * (MaxNodeScore - MinNodeScore)) oldRange + MinNodeScore)"

definition NormalizeScore :: "NodeScore list \<Rightarrow> NodeScore list" where
  "NormalizeScore scores =
     (case findHighestLowest scores (- MaxInt64, MaxInt64) of
        (highest, lowest) \<Rightarrow>
          map (\<lambda>nodeScore. nodeScore\<lparr>Score := rescale lowest (highest - lowest) (Score nodeScore)\<rparr>)
            scores)"

section \<open>The weighted quotient, as the specification words it\<close>

text \<open>
  The sum over the configured resources of \<open>s * capacity * weight\<close>, with \<open>s = -1\<close> for
  \<open>Least\<close> and \<open>s = 1\<close> otherwise, and the sum of the weights: once in the wrapping 64-bit
  arithmetic of the code (\<open>spec_nodeScoreSum\<close>, \<open>spec_weightSum\<close>) and once over the
  mathematical integers (\<open>exact_nodeScoreSum\<close>, \<open>exact_weightSum\<close>).
\<close>

definition spec_nodeScoreSum :: "resourceToWeightMap \<Rightarrow> ModeType \<Rightarrow> resourceToValueMap \<Rightarrow> int64" where
  "spec_nodeScoreSum cfg mode allocable =
     sum_list (map (\<lambda>(resource, weight).
        (if mode = config_Least then - 1 else 1) * valueAt allocable resource * weight) cfg)"

definition spec_weightSum :: "resourceToWeightMap \<Rightarrow> int64" where
  "spec_weightSum cfg = sum_list (map snd cfg)"

definition exact_nodeScoreSum :: "resourceToWeightMap \<Rightarrow> ModeType \<Rightarrow> resourceToValueMap \<Rightarrow> int" where
  "exact_nodeScoreSum cfg mode allocable =
     sum_list (map (\<lambda>(resource, weight).
        (if mode = config_Least then - 1 else 1) * sint (valueAt allocable resource) * sint weight) cfg)"

definition exact_weightSum :: "resourceToWeightMap \<Rightarrow> int" where
  "exact_weightSum cfg = sum_list (map (\<lambda>(resource, weight). sint weight) cfg)"

section \<open>Facts about 64-bit signed arithmetic\<close>

lemma sint64_ge: "- 9223372036854775808 \<le> sint (x :: int64)"
  using sint_ge [of x] by simp

lemma sint64_lt: "sint (x :: int64) < 9223372036854775808"
  using sint_lt [of x] by simp

lemma sint64_of_int:
  "- 9223372036854775808 \<le> k \<Longrightarrow> k < 9223372036854775808 \<Longrightarrow> sint (word_of_int k :: int64) = k"
  by (simp add: sint_sbintrunc' signed_take_bit_int_eq_self)

lemma sint64_sub:
  "- 9223372036854775808 \<le> sint a - sint b \<Longrightarrow> sint a - sint b < 9223372036854775808 \<Longrightarrow>
   sint (a - b :: int64) = sint a - sint b"
  by (simp add: sint_word_ariths signed_take_bit_int_eq_self)

lemma sint64_mult:
  "- 9223372036854775808 \<le> sint a * sint b \<Longrightarrow> sint a * sint b < 9223372036854775808 \<Longrightarrow>
   sint (a * b :: int64) = sint a * sint b"
  by (simp add: sint_word_ariths signed_take_bit_int_eq_self)

lemma sint_MaxInt64: "sint MaxInt64 = 9223372036854775807"
  by (simp add: MaxInt64_def)

lemma sint_neg_MaxInt64: "sint (- MaxInt64) = - 9223372036854775807"
  by (simp add: MaxInt64_def)

lemma sle_MaxInt64: "x \<le>s MaxInt64"
  using sint64_lt [of x] by (simp add: word_sle_eq sint_MaxInt64)

lemma sdiv_int_pos:
  fixes a c :: int
  assumes "0 < c"
  shows "a sdiv c = (if 0 \<le> a then a div c else - ((- a) div c))"
  using assms by (simp add: signed_divide_int_def sgn_if)

lemma sdiv_int_mono:
  fixes a b c :: int
  assumes "0 < c" "a \<le> b"
  shows "a sdiv c \<le> b sdiv c"
proof -
  consider "0 \<le> a" | "a < 0" "0 \<le> b" | "a < 0" "b < 0" by linarith
  then show ?thesis
  proof cases
    case 1
    with assms show ?thesis by (simp add: sdiv_int_pos zdiv_mono1)
  next
    case 2
    have "0 \<le> (- a) div c" "0 \<le> b div c"
      using assms 2 by (simp_all add: pos_imp_zdiv_nonneg_iff)
    with assms 2 show ?thesis by (simp add: sdiv_int_pos)
  next
    case 3
    have "(- b) div c \<le> (- a) div c"
      using assms by (simp add: zdiv_mono1)
    with assms 3 show ?thesis by (simp add: sdiv_int_pos)
  qed
qed

lemma sdiv_int_pos_bounds:
  fixes a c :: int
  assumes "0 < c"
  shows "min a 0 \<le> a sdiv c" and "a sdiv c \<le> max a 0"
proof -
  have "\<bar>a\<bar> div c \<le> \<bar>a\<bar>"
    by (cases "a = 0") (simp_all add: int_div_le_self)
  moreover have "0 \<le> \<bar>a\<bar> div c"
    using assms by (simp add: pos_imp_zdiv_nonneg_iff)
  ultimately
  show "min a 0 \<le> a sdiv c" and "a sdiv c \<le> max a 0"
    using assms by (auto simp add: sdiv_int_pos abs_if split: if_splits)
qed

lemma sint_quo_pos:
  assumes "0 < sint b"
  shows "sint (quo a b) = sint a sdiv sint b"
proof -
  have "min (sint a) 0 \<le> sint a sdiv sint b" "sint a sdiv sint b \<le> max (sint a) 0"
    using sdiv_int_pos_bounds [OF assms] by simp_all
  then have "- 9223372036854775808 \<le> sint a sdiv sint b" "sint a sdiv sint b < 9223372036854775808"
    using sint64_ge [of a] sint64_lt [of a] by linarith+
  then show ?thesis by (simp add: quo_def sint64_of_int)
qed

lemma sint64_eqI: "sint (a :: int64) = sint b \<Longrightarrow> a = b"
  by (rule signed_word_eqI)

lemma sle_antisym: "a \<le>s b \<Longrightarrow> b \<le>s a \<Longrightarrow> a = (b :: int64)"
  by (rule sint64_eqI) (simp add: word_sle_eq)

lemma sle_neq_sint_less: "a \<le>s b \<Longrightarrow> a \<noteq> (b :: int64) \<Longrightarrow> sint a < sint b"
proof -
  assume "a \<le>s b" "a \<noteq> b"
  then have "sint a \<le> sint b" "sint a \<noteq> sint b"
    using sint64_eqI [of a b] by (auto simp add: word_sle_eq)
  then show ?thesis by linarith
qed

section \<open>The scan for the highest and the lowest score\<close>

lemma findHighestLowest_lowest:
  "findHighestLowest scores (h, l) = (hi, lo) \<Longrightarrow>
   lo \<le>s l \<and> (\<forall>x\<in>set scores. lo \<le>s Score x) \<and> (lo = l \<or> lo \<in> Score ` set scores)"
proof (induction scores arbitrary: h l)
  case Nil
  then show ?case by simp
next
  case (Cons x scores)
  let ?l' = "if Score x <s l then Score x else l"
  from Cons.prems obtain h' where "findHighestLowest scores (h', ?l') = (hi, lo)"
    by simp
  from Cons.IH [OF this]
  have IH: "lo \<le>s ?l'" "\<forall>y\<in>set scores. lo \<le>s Score y" "lo = ?l' \<or> lo \<in> Score ` set scores"
    by simp_all
  show ?case
  proof (cases "Score x <s l")
    case True
    with IH show ?thesis by (auto simp add: word_sle_eq word_sless_alt)
  next
    case False
    with IH show ?thesis by (auto simp add: word_sle_eq word_sless_alt)
  qed
qed

lemma findHighestLowest_highest:
  "findHighestLowest scores (h, l) = (hi, lo) \<Longrightarrow>
   h \<le>s hi \<and> (\<forall>x\<in>set scores. Score x \<le>s hi) \<and> (hi = h \<or> hi \<in> Score ` set scores)"
proof (induction scores arbitrary: h l)
  case Nil
  then show ?case by simp
next
  case (Cons x scores)
  let ?h' = "if h <s Score x then Score x else h"
  from Cons.prems obtain l' where "findHighestLowest scores (?h', l') = (hi, lo)"
    by simp
  from Cons.IH [OF this]
  have IH: "?h' \<le>s hi" "\<forall>y\<in>set scores. Score y \<le>s hi" "hi = ?h' \<or> hi \<in> Score ` set scores"
    by simp_all
  show ?case
  proof (cases "h <s Score x")
    case True
    with IH show ?thesis by (auto simp add: word_sle_eq word_sless_alt)
  next
    case False
    with IH show ?thesis by (auto simp add: word_sle_eq word_sless_alt)
  qed
qed

text \<open>The lowest score found is the least raw score, whenever there is one.\<close>

lemma lowest_is_least:
  assumes "findHighestLowest scores (h, MaxInt64) = (hi, lo)"
    and "m \<in> Score ` set scores" and "\<forall>x\<in>set scores. m \<le>s Score x"
  shows "lo = m"
proof -
  from findHighestLowest_lowest [OF assms(1)]
  have a: "\<forall>x\<in>set scores. lo \<le>s Score x" and b: "lo = MaxInt64 \<or> lo \<in> Score ` set scores"
    by simp_all
  from a assms(2) have "lo \<le>s m" by auto
  moreover have "m \<le>s lo"
  proof (cases "lo \<in> Score ` set scores")
    case True
    with assms(3) show ?thesis by auto
  next
    case False
    with b show ?thesis by (simp add: sle_MaxInt64)
  qed
  ultimately show ?thesis by (rule sle_antisym)
qed

lemma highest_is_greatest:
  assumes "findHighestLowest scores (- MaxInt64, l) = (hi, lo)"
    and "g \<in> Score ` set scores" and "\<forall>x\<in>set scores. Score x \<le>s g"
    and "m \<in> Score ` set scores" and "m \<noteq> g"
  shows "hi = g"
proof -
  from findHighestLowest_highest [OF assms(1)]
  have a: "- MaxInt64 \<le>s hi" "\<forall>x\<in>set scores. Score x \<le>s hi"
    and b: "hi = - MaxInt64 \<or> hi \<in> Score ` set scores"
    by simp_all
  have "hi \<le>s g"
  proof (cases "hi \<in> Score ` set scores")
    case True
    with assms(3) show ?thesis by auto
  next
    case False
    with b have e: "hi = - MaxInt64" by simp
    from assms(3,4) have "m \<le>s g" by auto
    with assms(5) have "sint m < sint g"
      by (rule sle_neq_sint_less [rotated])
    with sint64_ge [of m] have "- 9223372036854775807 \<le> sint g" by linarith
    with e show ?thesis by (simp add: word_sle_eq sint_neg_MaxInt64)
  qed
  moreover from a assms(2) have "g \<le>s hi" by auto
  ultimately show ?thesis by (rule sle_antisym)
qed

lemma NormalizeScore_unfold:
  assumes "findHighestLowest scores (- MaxInt64, MaxInt64) = (hi, lo)"
  shows "NormalizeScore scores =
    map (\<lambda>nodeScore. nodeScore\<lparr>Score := rescale lo (hi - lo) (Score nodeScore)\<rparr>) scores"
  using assms by (simp add: NormalizeScore_def)

lemma rescale_lowest: "rescale lo d lo = MinNodeScore"
  by (simp add: rescale_def quo_def)

section \<open>Normalisation of equal scores\<close>

text \<open>
  Claim C3. For every non-empty score list whose elements all hold the same raw score
  (every single-element list is one), \<open>NormalizeScore\<close> sets the score of every element
  to \<open>MinNodeScore\<close> and changes nothing else.
\<close>

theorem NormalizeScore_all_equal:
  assumes "scores \<noteq> []" and "\<forall>x\<in>set scores. Score x = v"
  shows "NormalizeScore scores = map (\<lambda>x. x\<lparr>Score := MinNodeScore\<rparr>) scores"
proof -
  obtain hi lo where hl: "findHighestLowest scores (- MaxInt64, MaxInt64) = (hi, lo)"
    by (cases "findHighestLowest scores (- MaxInt64, MaxInt64)")
  from assms have "v \<in> Score ` set scores" by (cases scores) auto
  moreover from assms(2) have "\<forall>x\<in>set scores. v \<le>s Score x" by simp
  ultimately have "lo = v" using lowest_is_least [OF hl] by blast
  with assms(2) show ?thesis
    by (simp add: NormalizeScore_unfold [OF hl] rescale_lowest)
qed

theorem NormalizeScore_all_equal_witness:
  "[\<lparr>NodeName = ''a'', Score = - 9223372036854775808\<rparr>,
    \<lparr>NodeName = ''b'', Score = - 9223372036854775808\<rparr>] \<noteq> []
   \<and> Score ` set [\<lparr>NodeName = ''a'', Score = - 9223372036854775808\<rparr>,
                   \<lparr>NodeName = ''b'', Score = - 9223372036854775808\<rparr>]
     = {- 9223372036854775808}
   \<and> NormalizeScore [\<lparr>NodeName = ''a'', Score = - 9223372036854775808\<rparr>,
                     \<lparr>NodeName = ''b'', Score = - 9223372036854775808\<rparr>]
     = [\<lparr>NodeName = ''a'', Score = 0\<rparr>, \<lparr>NodeName = ''b'', Score = 0\<rparr>]"
  using NormalizeScore_all_equal
    [of "[\<lparr>NodeName = ''a'', Score = - 9223372036854775808\<rparr>,
          \<lparr>NodeName = ''b'', Score = - 9223372036854775808\<rparr>]" "- 9223372036854775808"]
  by (simp add: MinNodeScore_def)

section \<open>Rescaling without overflow\<close>

text \<open>
  The product \<open>(s - lowest) * 100\<close> fits into 64 bits exactly when the difference is at
  most 92233720368547758; up to that spread the rescaled score is the mathematical one.
\<close>

lemma scale_div_bounds:
  fixes n d :: int
  assumes "0 \<le> n" and "n \<le> d" and "0 < d"
  shows "0 \<le> (n * 100) div d" and "(n * 100) div d \<le> 100"
proof -
  show "0 \<le> (n * 100) div d"
    using assms by (simp add: pos_imp_zdiv_nonneg_iff)
  have "(n * 100) div d \<le> (d * 100) div d"
    using assms by (intro zdiv_mono1) simp_all
  also have "(d * 100) div d = 100"
    using assms by simp
  finally show "(n * 100) div d \<le> 100" .
qed

lemma sint_rescale:
  assumes "sint lo \<le> sint s" and "sint s \<le> sint hi" and "lo \<noteq> hi"
    and "sint hi - sint lo \<le> 92233720368547758"
  shows "sint (rescale lo (hi - lo) s) = ((sint s - sint lo) * 100) div (sint hi - sint lo)"
proof -
  from assms(1,2) have le: "sint lo \<le> sint hi" by linarith
  with assms(3) sint64_eqI [of lo hi] have pos: "0 < sint hi - sint lo" by fastforce
  have d: "sint (hi - lo) = sint hi - sint lo"
    using le assms(4) by (simp add: sint64_sub)
  have n: "sint (s - lo) = sint s - sint lo"
    using assms(1,2,4) by (simp add: sint64_sub)
  have "sint ((s - lo) * 100) = sint (s - lo) * sint (100 :: int64)"
    using assms(1,2,4) n by (intro sint64_mult) simp_all
  then have m: "sint ((s - lo) * 100) = (sint s - sint lo) * 100"
    by (simp add: n)
  from pos d have nz: "hi - lo \<noteq> 0" by auto
  have "sint (quo ((s - lo) * 100) (hi - lo)) = sint ((s - lo) * 100) sdiv sint (hi - lo)"
    using pos d by (intro sint_quo_pos) simp
  also have "\<dots> = ((sint s - sint lo) * 100) sdiv (sint hi - sint lo)"
    by (simp only: m d)
  also have "\<dots> = ((sint s - sint lo) * 100) div (sint hi - sint lo)"
    using pos assms(1) by (simp add: sdiv_int_pos)
  finally have "sint (quo ((s - lo) * 100) (hi - lo)) =
      ((sint s - sint lo) * 100) div (sint hi - sint lo)" .
  moreover have "rescale lo (hi - lo) s = quo ((s - lo) * 100) (hi - lo)"
    using nz by (simp add: rescale_def MinNodeScore_def MaxNodeScore_def)
  ultimately show ?thesis by (simp only:)
qed

lemma rescale_in_range:
  assumes "sint lo \<le> sint s" and "sint s \<le> sint hi"
    and "sint hi - sint lo \<le> 92233720368547758"
  shows "0 \<le> sint (rescale lo (hi - lo) s) \<and> sint (rescale lo (hi - lo) s) \<le> 100"
proof (cases "lo = hi")
  case True
  then show ?thesis by (simp add: rescale_def MinNodeScore_def)
next
  case False
  from assms(1,2) False sint64_eqI [of lo hi] have pos: "0 < sint hi - sint lo" by fastforce
  have "0 \<le> sint s - sint lo" "sint s - sint lo \<le> sint hi - sint lo"
    using assms by simp_all
  from scale_div_bounds [OF this pos] show ?thesis
    by (simp only: sint_rescale [OF assms(1,2) False assms(3)])
qed

lemma rescale_highest:
  assumes "sint lo \<le> sint hi" and "lo \<noteq> hi" and "sint hi - sint lo \<le> 92233720368547758"
  shows "rescale lo (hi - lo) hi = MaxNodeScore"
proof -
  from assms(1,2) sint64_eqI [of lo hi] have pos: "0 < sint hi - sint lo" by fastforce
  have "sint (rescale lo (hi - lo) hi) = ((sint hi - sint lo) * 100) div (sint hi - sint lo)"
    using assms by (intro sint_rescale) simp_all
  also have "\<dots> = 100" using pos by (simp only: nonzero_mult_div_cancel_left)
  finally show ?thesis by (intro sint64_eqI) (simp add: MaxNodeScore_def)
qed


lemma NormalizeScore_nth:
  assumes "findHighestLowest scores (- MaxInt64, MaxInt64) = (hi, lo)" and "i < length scores"
  shows "Score (NormalizeScore scores ! i) = rescale lo (hi - lo) (Score (scores ! i))"
  using assms by (simp add: NormalizeScore_unfold)

section \<open>Normalisation of distinct scores\<close>

text \<open>
  Claim C2, as amended. For every score list with a lowest raw score \<open>lo\<close> and a
  different highest raw score \<open>hi\<close>, \<open>NormalizeScore\<close> rewrites every element's score to
  \<open>((s - lo) * (MaxNodeScore - MinNodeScore) / (hi - lo)) + MinNodeScore\<close> in wrapping
  64-bit arithmetic with the truncating quotient, every element that held the lowest raw
  score gets \<open>MinNodeScore\<close>, and every element that held the highest raw score gets
  \<open>MaxNodeScore\<close> provided \<open>hi - lo\<close> is at most 92233720368547758.
\<close>

theorem NormalizeScore_two_distinct:
  assumes "lo \<in> Score ` set scores" and "\<forall>x\<in>set scores. lo \<le>s Score x"
    and "hi \<in> Score ` set scores" and "\<forall>x\<in>set scores. Score x \<le>s hi"
    and "lo \<noteq> hi"
  shows "NormalizeScore scores =
           map (\<lambda>x. x\<lparr>Score := quo ((Score x - lo) * (MaxNodeScore - MinNodeScore)) (hi - lo)
                                  + MinNodeScore\<rparr>) scores
         \<and> (\<forall>i<length scores. Score (scores ! i) = lo \<longrightarrow>
               Score (NormalizeScore scores ! i) = MinNodeScore)
         \<and> (sint hi - sint lo \<le> 92233720368547758 \<longrightarrow>
             (\<forall>i<length scores. Score (scores ! i) = hi \<longrightarrow>
               Score (NormalizeScore scores ! i) = MaxNodeScore))"
proof -
  obtain h l where hl: "findHighestLowest scores (- MaxInt64, MaxInt64) = (h, l)"
    by (cases "findHighestLowest scores (- MaxInt64, MaxInt64)")
  have l: "l = lo"
    using lowest_is_least [OF hl assms(1,2)] .
  have h: "h = hi"
    using highest_is_greatest [OF hl assms(3,4,1,5)] .
  from assms(5) have nz: "hi - lo \<noteq> 0" by simp
  from assms(1,4) have le: "sint lo \<le> sint hi" by (auto simp add: word_sle_eq)
  have "NormalizeScore scores =
          map (\<lambda>x. x\<lparr>Score := quo ((Score x - lo) * (MaxNodeScore - MinNodeScore)) (hi - lo)
                                 + MinNodeScore\<rparr>) scores"
    using nz by (simp add: NormalizeScore_unfold [OF hl] l h rescale_def)
  moreover have "\<forall>i<length scores. Score (scores ! i) = lo \<longrightarrow>
      Score (NormalizeScore scores ! i) = MinNodeScore"
    by (simp add: NormalizeScore_nth [OF hl] l rescale_lowest)
  moreover have "sint hi - sint lo \<le> 92233720368547758 \<longrightarrow>
      (\<forall>i<length scores. Score (scores ! i) = hi \<longrightarrow>
        Score (NormalizeScore scores ! i) = MaxNodeScore)"
    using le assms(5) by (simp add: NormalizeScore_nth [OF hl] l h rescale_highest)
  ultimately show ?thesis by (simp only: simp_thms)
qed

theorem NormalizeScore_two_distinct_witness:
  "(- 6 :: int64) \<noteq> - 2
   \<and> NormalizeScore [\<lparr>NodeName = ''A'', Score = - 6\<rparr>, \<lparr>NodeName = ''B'', Score = - 2\<rparr>]
     = [\<lparr>NodeName = ''A'', Score = 0\<rparr>, \<lparr>NodeName = ''B'', Score = 100\<rparr>]
   \<and> Score (NormalizeScore [\<lparr>NodeName = ''A'', Score = - 6\<rparr>,
                            \<lparr>NodeName = ''B'', Score = - 2\<rparr>] ! 0) = MinNodeScore
   \<and> Score (NormalizeScore [\<lparr>NodeName = ''A'', Score = - 6\<rparr>,
                            \<lparr>NodeName = ''B'', Score = - 2\<rparr>] ! 1) = MaxNodeScore"
  using NormalizeScore_two_distinct
    [of "- 6" "[\<lparr>NodeName = ''A'', Score = - 6\<rparr>, \<lparr>NodeName = ''B'', Score = - 2\<rparr>]" "- 2"]
  by (simp add: word_sle_eq quo_def MinNodeScore_def MaxNodeScore_def)

text \<open>
  The claim as stated fails once \<open>(hi - lo) * 100\<close> leaves the 64-bit range: with the raw
  scores 0 and 100000000000000000 the product wraps around, and the element that held the
  highest raw score gets \<open>-84\<close>.
\<close>

theorem NormalizeScore_highest_counterexample:
  "Score ([\<lparr>NodeName = ''A'', Score = 0\<rparr>,
           \<lparr>NodeName = ''B'', Score = 100000000000000000\<rparr>] ! 1) = 100000000000000000
   \<and> (0 :: int64) <s 100000000000000000
   \<and> Score (NormalizeScore [\<lparr>NodeName = ''A'', Score = 0\<rparr>,
                            \<lparr>NodeName = ''B'', Score = 100000000000000000\<rparr>] ! 1) = - 84
   \<and> Score (NormalizeScore [\<lparr>NodeName = ''A'', Score = 0\<rparr>,
                            \<lparr>NodeName = ''B'', Score = 100000000000000000\<rparr>] ! 1) \<noteq> MaxNodeScore"
  by (simp add: NormalizeScore_def rescale_def MaxInt64_def MinNodeScore_def MaxNodeScore_def
      quo_def word_sless_alt word_sle_eq)

section \<open>The range of normalised scores\<close>

text \<open>
  Claim C6, as amended. For every score list in which no two raw scores are further apart
  than 92233720368547758, every score lies between \<open>MinNodeScore\<close> and \<open>MaxNodeScore\<close>
  after \<open>NormalizeScore\<close>.
\<close>

theorem NormalizeScore_in_range:
  assumes "\<forall>x\<in>set scores. \<forall>y\<in>set scores.
             sint (Score x) - sint (Score y) \<le> 92233720368547758"
  shows "\<forall>z\<in>set (NormalizeScore scores). MinNodeScore \<le>s Score z \<and> Score z \<le>s MaxNodeScore"
proof -
  obtain h l where hl: "findHighestLowest scores (- MaxInt64, MaxInt64) = (h, l)"
    by (cases "findHighestLowest scores (- MaxInt64, MaxInt64)")
  have "0 \<le> sint (rescale l (h - l) (Score x)) \<and> sint (rescale l (h - l) (Score x)) \<le> 100"
    if x: "x \<in> set scores" for x
  proof -
    from findHighestLowest_lowest [OF hl] x
    have lx: "l \<le>s Score x" and lmem: "l = MaxInt64 \<or> l \<in> Score ` set scores"
      by simp_all
    from findHighestLowest_highest [OF hl] x
    have xh: "Score x \<le>s h" and hmem: "h = - MaxInt64 \<or> h \<in> Score ` set scores"
      by simp_all
    show ?thesis
    proof (cases "h \<in> Score ` set scores \<and> l \<in> Score ` set scores")
      case True
      with assms have "sint h - sint l \<le> 92233720368547758" by auto
      with lx xh show ?thesis
        by (intro rescale_in_range) (simp_all add: word_sle_eq)
    next
      case False
      have "Score x = l"
      proof (cases "l \<in> Score ` set scores")
        case True
        with False hmem have hm: "h = - MaxInt64" and hn: "h \<notin> Score ` set scores" by simp_all
        have least: "sint y = - 9223372036854775808" if y: "y \<in> Score ` set scores" for y
        proof -
          from findHighestLowest_highest [OF hl] y have "y \<le>s h" by auto
          moreover from y hn have "y \<noteq> h" by auto
          ultimately have "sint y < sint h" by (rule sle_neq_sint_less)
          with hm sint64_ge [of y] show ?thesis by (simp add: sint_neg_MaxInt64)
        qed
        from x have "Score x \<in> Score ` set scores" by simp
        with least True have "sint (Score x) = sint l" by simp
        then show ?thesis by (rule sint64_eqI)
      next
        case False
        with lmem have "l = MaxInt64" by simp
        with lx sle_MaxInt64 [of "Score x"] show ?thesis by (simp add: sle_antisym)
      qed
      then show ?thesis by (simp add: rescale_lowest MinNodeScore_def)
    qed
  qed
  then show ?thesis
    by (auto simp add: NormalizeScore_unfold [OF hl] word_sle_eq MinNodeScore_def MaxNodeScore_def)
qed

theorem NormalizeScore_in_range_witness:
  "list_all (\<lambda>z. MinNodeScore \<le>s Score z \<and> Score z \<le>s MaxNodeScore)
     (NormalizeScore [\<lparr>NodeName = ''A'', Score = 6\<rparr>, \<lparr>NodeName = ''B'', Score = 2\<rparr>,
                      \<lparr>NodeName = ''C'', Score = 3\<rparr>])"
  using NormalizeScore_in_range
    [of "[\<lparr>NodeName = ''A'', Score = 6\<rparr>, \<lparr>NodeName = ''B'', Score = 2\<rparr>,
          \<lparr>NodeName = ''C'', Score = 3\<rparr>]"]
  by (simp add: list_all_iff)

text \<open>
  One step beyond that spread the product wraps around and the score leaves the range:
  the raw scores 0 and 92233720368547759 give \<open>-99\<close> for the second element.
\<close>

theorem NormalizeScore_in_range_counterexample:
  "Score (NormalizeScore [\<lparr>NodeName = ''A'', Score = 0\<rparr>,
                          \<lparr>NodeName = ''B'', Score = 92233720368547759\<rparr>] ! 1) = - 99
   \<and> (- 99 :: int64) <s MinNodeScore"
  by (simp add: NormalizeScore_def rescale_def MaxInt64_def MinNodeScore_def MaxNodeScore_def
      quo_def word_sless_alt word_sle_eq)

section \<open>Normalisation of a normalised list\<close>

text \<open>
  A list whose scores lie between \<open>MinNodeScore\<close> and \<open>MaxNodeScore\<close> and in which
  both bounds occur is a fixed point: the scan finds exactly the two bounds, and
  \<open>(s - 0) * 100 / 100 + 0 = s\<close> without overflow.
\<close>

lemma NormalizeScore_spanning_fixed:
  assumes "\<forall>x\<in>set scores. MinNodeScore \<le>s Score x \<and> Score x \<le>s MaxNodeScore"
    and "MinNodeScore \<in> Score ` set scores" and "MaxNodeScore \<in> Score ` set scores"
  shows "NormalizeScore scores = scores"
proof -
  obtain h l where hl: "findHighestLowest scores (- MaxInt64, MaxInt64) = (h, l)"
    by (cases "findHighestLowest scores (- MaxInt64, MaxInt64)")
  have ne: "MinNodeScore \<noteq> MaxNodeScore"
    by (simp add: MinNodeScore_def MaxNodeScore_def)
  from assms(1) have lo: "\<forall>x\<in>set scores. MinNodeScore \<le>s Score x"
    and hi: "\<forall>x\<in>set scores. Score x \<le>s MaxNodeScore" by simp_all
  have l: "l = MinNodeScore"
    using lowest_is_least [OF hl assms(2) lo] .
  have h: "h = MaxNodeScore"
    using highest_is_greatest [OF hl assms(3) hi assms(2) ne] .
  have "rescale MinNodeScore (MaxNodeScore - MinNodeScore) (Score x) = Score x"
    if "x \<in> set scores" for x
  proof -
    from that assms(1) have b: "sint MinNodeScore \<le> sint (Score x)" "sint (Score x) \<le> sint MaxNodeScore"
      by (simp_all add: word_sle_eq)
    have "sint (rescale MinNodeScore (MaxNodeScore - MinNodeScore) (Score x)) =
        ((sint (Score x) - sint MinNodeScore) * 100) div (sint MaxNodeScore - sint MinNodeScore)"
      using b ne by (intro sint_rescale) (simp_all add: MinNodeScore_def MaxNodeScore_def)
    also have "\<dots> = sint (Score x)"
      by (simp add: MinNodeScore_def MaxNodeScore_def)
    finally show ?thesis by (rule sint64_eqI)
  qed
  then have "map (\<lambda>x. x\<lparr>Score := rescale MinNodeScore (MaxNodeScore - MinNodeScore) (Score x)\<rparr>) scores
      = scores"
    by (intro map_idI) simp
  then show ?thesis
    by (simp only: NormalizeScore_unfold [OF hl] l h)
qed

text \<open>The lowest score found occurs in a non-empty list.\<close>

lemma lowest_member:
  assumes "findHighestLowest scores (h0, MaxInt64) = (h, l)" and "scores \<noteq> []"
  shows "l \<in> Score ` set scores"
proof (rule ccontr)
  assume n: "l \<notin> Score ` set scores"
  from findHighestLowest_lowest [OF assms(1)]
  have a: "\<forall>x\<in>set scores. l \<le>s Score x" and b: "l = MaxInt64 \<or> l \<in> Score ` set scores"
    by simp_all
  from n b have m: "l = MaxInt64" by simp
  from assms(2) obtain x where x: "x \<in> set scores" by (cases scores) auto
  with a m have "MaxInt64 \<le>s Score x" by simp
  with sle_MaxInt64 [of "Score x"] have "Score x = MaxInt64" by (rule sle_antisym)
  with x m n show False by force
qed

text \<open>
  The highest score found fails to occur in the list only when every score is the most
  negative value, which is then the lowest score found as well.
\<close>

lemma highest_member_or_constant:
  assumes "findHighestLowest scores (- MaxInt64, MaxInt64) = (h, l)" and "scores \<noteq> []"
    and "h \<notin> Score ` set scores"
  shows "\<forall>x\<in>set scores. Score x = l"
proof
  fix x assume x: "x \<in> set scores"
  from findHighestLowest_highest [OF assms(1)] assms(3)
  have hm: "h = - MaxInt64" and up: "\<forall>y\<in>set scores. Score y \<le>s h" by auto
  have least: "sint y = - 9223372036854775808" if y: "y \<in> Score ` set scores" for y
  proof -
    from up y have "y \<le>s h" by auto
    moreover from y assms(3) have "y \<noteq> h" by auto
    ultimately have "sint y < sint h" by (rule sle_neq_sint_less)
    with hm sint64_ge [of y] show ?thesis by (simp add: sint_neg_MaxInt64)
  qed
  from x have "Score x \<in> Score ` set scores" by simp
  with least lowest_member [OF assms(1,2)] have "sint (Score x) = sint l" by simp
  then show "Score x = l" by (rule sint64_eqI)
qed

text \<open>Equal scores all become \<open>MinNodeScore\<close>; a list of such scores stays as it is.\<close>

lemma NormalizeScore_constant:
  assumes "findHighestLowest scores (- MaxInt64, MaxInt64) = (h, l)"
    and "\<forall>x\<in>set scores. Score x = l"
  shows "NormalizeScore scores = map (\<lambda>x. x\<lparr>Score := MinNodeScore\<rparr>) scores"
  using assms(2) by (simp add: NormalizeScore_unfold [OF assms(1)] rescale_lowest)

lemma NormalizeScore_all_MinNodeScore:
  assumes "\<forall>x\<in>set scores. Score x = MinNodeScore"
  shows "NormalizeScore scores = scores"
proof (cases "scores = []")
  case True
  then show ?thesis by (simp add: NormalizeScore_def)
next
  case False
  obtain h l where hl: "findHighestLowest scores (- MaxInt64, MaxInt64) = (h, l)"
    by (cases "findHighestLowest scores (- MaxInt64, MaxInt64)")
  from lowest_member [OF hl False] assms have "l = MinNodeScore" by auto
  with assms have "\<forall>x\<in>set scores. Score x = l" by simp
  from NormalizeScore_constant [OF hl this]
  have "NormalizeScore scores = map (\<lambda>x. x\<lparr>Score := MinNodeScore\<rparr>) scores" .
  also have "\<dots> = scores"
    using assms by (intro map_idI) simp
  finally show ?thesis .
qed

lemma NormalizeScore_twice:
  assumes "\<forall>x\<in>set scores. \<forall>y\<in>set scores.
             sint (Score x) - sint (Score y) \<le> 92233720368547758"
  shows "NormalizeScore (NormalizeScore scores) = NormalizeScore scores"
proof (cases "scores = []")
  case True
  then show ?thesis by (simp add: NormalizeScore_def)
next
  case False
  obtain h l where hl: "findHighestLowest scores (- MaxInt64, MaxInt64) = (h, l)"
    by (cases "findHighestLowest scores (- MaxInt64, MaxInt64)")
  have lmem: "l \<in> Score ` set scores"
    using lowest_member [OF hl False] .
  from findHighestLowest_lowest [OF hl] have low: "\<forall>x\<in>set scores. l \<le>s Score x" by simp
  from findHighestLowest_highest [OF hl] have up: "\<forall>x\<in>set scores. Score x \<le>s h" by simp
  let ?ys = "NormalizeScore scores"
  have ys: "?ys = map (\<lambda>x. x\<lparr>Score := rescale l (h - l) (Score x)\<rparr>) scores"
    by (rule NormalizeScore_unfold [OF hl])
  show ?thesis
  proof (cases "\<forall>x\<in>set scores. Score x = l")
    case True
    from NormalizeScore_constant [OF hl True]
    have "\<forall>y\<in>set ?ys. Score y = MinNodeScore" by simp
    then show ?thesis by (rule NormalizeScore_all_MinNodeScore)
  next
    case False
    then obtain z where z: "z \<in> set scores" "Score z \<noteq> l" by blast
    have hmem: "h \<in> Score ` set scores"
      using highest_member_or_constant [OF hl \<open>scores \<noteq> []\<close>] False by blast
    have ne: "l \<noteq> h"
    proof
      assume "l = h"
      with low up z(1) have "l \<le>s Score z" "Score z \<le>s l" by simp_all
      then have "l = Score z" by (rule sle_antisym)
      with z(2) show False by simp
    qed
    from hmem lmem assms have spread: "sint h - sint l \<le> 92233720368547758" by auto
    from lmem up have le: "sint l \<le> sint h" by (auto simp add: word_sle_eq)
    have range: "\<forall>y\<in>set ?ys. MinNodeScore \<le>s Score y \<and> Score y \<le>s MaxNodeScore"
    proof -
      have "0 \<le> sint (rescale l (h - l) (Score x)) \<and> sint (rescale l (h - l) (Score x)) \<le> 100"
        if "x \<in> set scores" for x
        using that low up spread by (intro rescale_in_range) (simp_all add: word_sle_eq)
      then show ?thesis
        by (auto simp add: ys word_sle_eq MinNodeScore_def MaxNodeScore_def)
    qed
    from lmem obtain a where a: "a \<in> set scores" "Score a = l" by auto
    then have "Score (a\<lparr>Score := rescale l (h - l) (Score a)\<rparr>) = MinNodeScore"
      by (simp add: rescale_lowest)
    with a(1) have minmem: "MinNodeScore \<in> Score ` set ?ys"
      unfolding ys by (metis (no_types, lifting) image_eqI image_set)
    from hmem obtain b where b: "b \<in> set scores" "Score b = h" by auto
    then have "Score (b\<lparr>Score := rescale l (h - l) (Score b)\<rparr>) = MaxNodeScore"
      by (simp add: rescale_highest [OF le ne spread])
    with b(1) have maxmem: "MaxNodeScore \<in> Score ` set ?ys"
      unfolding ys by (metis (no_types, lifting) image_eqI image_set)
    from range minmem maxmem show ?thesis by (rule NormalizeScore_spanning_fixed)
  qed
qed

text \<open>
  Claim C8, as amended. For every score list whose lowest raw score is \<open>MinNodeScore\<close> and
  whose highest raw score is \<open>MaxNodeScore\<close> (all scores lie between the two bounds and
  both occur), \<open>NormalizeScore\<close> leaves the list unchanged; and normalising the result of
  \<open>NormalizeScore\<close> once more changes nothing, for every input list in which no two raw
  scores are further apart than 92233720368547758.
\<close>

theorem NormalizeScore_idempotent:
  "((\<forall>x\<in>set scores. MinNodeScore \<le>s Score x \<and> Score x \<le>s MaxNodeScore)
      \<and> MinNodeScore \<in> Score ` set scores \<and> MaxNodeScore \<in> Score ` set scores
     \<longrightarrow> NormalizeScore scores = scores)
   \<and> ((\<forall>x\<in>set scores. \<forall>y\<in>set scores.
          sint (Score x) - sint (Score y) \<le> 92233720368547758)
     \<longrightarrow> NormalizeScore (NormalizeScore scores) = NormalizeScore scores)"
  using NormalizeScore_spanning_fixed [of scores] NormalizeScore_twice [of scores]
  by blast

theorem NormalizeScore_idempotent_witness:
  "MinNodeScore \<in> Score ` set [\<lparr>NodeName = ''A'', Score = 0\<rparr>, \<lparr>NodeName = ''B'', Score = 100\<rparr>,
                                \<lparr>NodeName = ''C'', Score = 37\<rparr>]
   \<and> MaxNodeScore \<in> Score ` set [\<lparr>NodeName = ''A'', Score = 0\<rparr>, \<lparr>NodeName = ''B'', Score = 100\<rparr>,
                                \<lparr>NodeName = ''C'', Score = 37\<rparr>]
   \<and> NormalizeScore [\<lparr>NodeName = ''A'', Score = 0\<rparr>, \<lparr>NodeName = ''B'', Score = 100\<rparr>,
                     \<lparr>NodeName = ''C'', Score = 37\<rparr>]
     = [\<lparr>NodeName = ''A'', Score = 0\<rparr>, \<lparr>NodeName = ''B'', Score = 100\<rparr>,
                     \<lparr>NodeName = ''C'', Score = 37\<rparr>]
   \<and> NormalizeScore [\<lparr>NodeName = ''A'', Score = - 6\<rparr>, \<lparr>NodeName = ''B'', Score = - 2\<rparr>,
                     \<lparr>NodeName = ''C'', Score = - 3\<rparr>]
     = [\<lparr>NodeName = ''A'', Score = 0\<rparr>, \<lparr>NodeName = ''B'', Score = 100\<rparr>,
        \<lparr>NodeName = ''C'', Score = 75\<rparr>]
   \<and> NormalizeScore (NormalizeScore [\<lparr>NodeName = ''A'', Score = - 6\<rparr>,
                                     \<lparr>NodeName = ''B'', Score = - 2\<rparr>,
                                     \<lparr>NodeName = ''C'', Score = - 3\<rparr>])
     = NormalizeScore [\<lparr>NodeName = ''A'', Score = - 6\<rparr>, \<lparr>NodeName = ''B'', Score = - 2\<rparr>,
                       \<lparr>NodeName = ''C'', Score = - 3\<rparr>]"
proof -
  have n: "NormalizeScore [\<lparr>NodeName = ''A'', Score = - 6\<rparr>, \<lparr>NodeName = ''B'', Score = - 2\<rparr>,
                     \<lparr>NodeName = ''C'', Score = - 3\<rparr>]
     = [\<lparr>NodeName = ''A'', Score = 0\<rparr>, \<lparr>NodeName = ''B'', Score = 100\<rparr>,
        \<lparr>NodeName = ''C'', Score = 75\<rparr>]"
    by (simp add: NormalizeScore_def rescale_def MaxInt64_def MinNodeScore_def MaxNodeScore_def
        quo_def word_sless_alt word_sle_eq)
  have s: "\<forall>x\<in>set [\<lparr>NodeName = ''A'', Score = - 6\<rparr>, \<lparr>NodeName = ''B'', Score = - 2\<rparr>,
                     \<lparr>NodeName = ''C'', Score = - 3\<rparr>].
           \<forall>y\<in>set [\<lparr>NodeName = ''A'', Score = - 6\<rparr>, \<lparr>NodeName = ''B'', Score = - 2\<rparr>,
                     \<lparr>NodeName = ''C'', Score = - 3\<rparr>].
             sint (Score x) - sint (Score y) \<le> 92233720368547758"
    by simp
  have f: "(\<forall>x\<in>set [\<lparr>NodeName = ''A'', Score = 0\<rparr>, \<lparr>NodeName = ''B'', Score = 100\<rparr>,
                      \<lparr>NodeName = ''C'', Score = 37\<rparr>].
             MinNodeScore \<le>s Score x \<and> Score x \<le>s MaxNodeScore)
      \<and> MinNodeScore \<in> Score ` set [\<lparr>NodeName = ''A'', Score = 0\<rparr>, \<lparr>NodeName = ''B'', Score = 100\<rparr>,
                                \<lparr>NodeName = ''C'', Score = 37\<rparr>]
      \<and> MaxNodeScore \<in> Score ` set [\<lparr>NodeName = ''A'', Score = 0\<rparr>, \<lparr>NodeName = ''B'', Score = 100\<rparr>,
                                \<lparr>NodeName = ''C'', Score = 37\<rparr>]"
    by (simp add: word_sle_eq MinNodeScore_def MaxNodeScore_def)
  from NormalizeScore_idempotent
      [of "[\<lparr>NodeName = ''A'', Score = 0\<rparr>, \<lparr>NodeName = ''B'', Score = 100\<rparr>,
            \<lparr>NodeName = ''C'', Score = 37\<rparr>]"] f
  have p1: "NormalizeScore [\<lparr>NodeName = ''A'', Score = 0\<rparr>, \<lparr>NodeName = ''B'', Score = 100\<rparr>,
                     \<lparr>NodeName = ''C'', Score = 37\<rparr>]
     = [\<lparr>NodeName = ''A'', Score = 0\<rparr>, \<lparr>NodeName = ''B'', Score = 100\<rparr>,
                     \<lparr>NodeName = ''C'', Score = 37\<rparr>]"
    by blast
  from NormalizeScore_idempotent
      [of "[\<lparr>NodeName = ''A'', Score = - 6\<rparr>, \<lparr>NodeName = ''B'', Score = - 2\<rparr>,
            \<lparr>NodeName = ''C'', Score = - 3\<rparr>]"] s
  have p2: "NormalizeScore (NormalizeScore [\<lparr>NodeName = ''A'', Score = - 6\<rparr>,
                                     \<lparr>NodeName = ''B'', Score = - 2\<rparr>,
                                     \<lparr>NodeName = ''C'', Score = - 3\<rparr>])
     = NormalizeScore [\<lparr>NodeName = ''A'', Score = - 6\<rparr>, \<lparr>NodeName = ''B'', Score = - 2\<rparr>,
                       \<lparr>NodeName = ''C'', Score = - 3\<rparr>]"
    by blast
  from f p1 n p2 show ?thesis by (simp only: simp_thms)
qed

text \<open>
  Without the bound the result of \<open>NormalizeScore\<close> need not be a fixed point: the raw
  scores 0 and 100000000000000000 become 0 and \<open>-84\<close>, and normalising these gives 100
  and 0.
\<close>

theorem NormalizeScore_idempotent_counterexample:
  "NormalizeScore [\<lparr>NodeName = ''A'', Score = 0\<rparr>,
                   \<lparr>NodeName = ''B'', Score = 100000000000000000\<rparr>]
     = [\<lparr>NodeName = ''A'', Score = 0\<rparr>, \<lparr>NodeName = ''B'', Score = - 84\<rparr>]
   \<and> NormalizeScore (NormalizeScore [\<lparr>NodeName = ''A'', Score = 0\<rparr>,
                                     \<lparr>NodeName = ''B'', Score = 100000000000000000\<rparr>])
     = [\<lparr>NodeName = ''A'', Score = 100\<rparr>, \<lparr>NodeName = ''B'', Score = 0\<rparr>]
   \<and> NormalizeScore (NormalizeScore [\<lparr>NodeName = ''A'', Score = 0\<rparr>,
                                     \<lparr>NodeName = ''B'', Score = 100000000000000000\<rparr>])
     \<noteq> NormalizeScore [\<lparr>NodeName = ''A'', Score = 0\<rparr>,
                       \<lparr>NodeName = ''B'', Score = 100000000000000000\<rparr>]"
  by (simp add: NormalizeScore_def rescale_def MaxInt64_def MinNodeScore_def MaxNodeScore_def
      quo_def word_sless_alt word_sle_eq)

section \<open>The scorer in closed form\<close>

lemma scorerLoop_closed:
  "scorerLoop allocable mode cfg (ns, ws) =
     (ns + sum_list (map (\<lambda>(r, w). score (valueAt allocable r) mode * w) cfg),
      ws + sum_list (map snd cfg))"
  by (induction cfg arbitrary: ns ws) (auto simp add: algebra_simps)

lemma resourceScorer_closed:
  "resourceScorer cfg mode requested allocable =
     go_div (sum_list (map (\<lambda>(r, w). score (valueAt allocable r) mode * w) cfg))
            (sum_list (map snd cfg))"
  by (simp add: resourceScorer_def scorerLoop_closed)

lemma score_sign:
  "mode = config_Least \<or> mode = config_Most \<Longrightarrow>
   score c mode = (if mode = config_Least then - 1 else 1) * c"
  by (auto simp add: score_def config_Least_def config_Most_def)

lemma resourceScorer_spec:
  assumes "mode = config_Least \<or> mode = config_Most"
  shows "resourceScorer cfg mode requested allocable =
     go_div (spec_nodeScoreSum cfg mode allocable) (spec_weightSum cfg)"
proof -
  have "map (\<lambda>(r, w). score (valueAt allocable r) mode * w) cfg =
        map (\<lambda>(r, w). (if mode = config_Least then - 1 else 1) * valueAt allocable r * w) cfg"
    using score_sign [OF assms] by (intro map_cong) auto
  then show ?thesis
    by (simp only: resourceScorer_closed spec_nodeScoreSum_def spec_weightSum_def)
qed

lemma of_int_exact_nodeScoreSum:
  "word_of_int (exact_nodeScoreSum cfg mode allocable) = spec_nodeScoreSum cfg mode allocable"
  unfolding exact_nodeScoreSum_def spec_nodeScoreSum_def
  by (induction cfg) (auto simp add: case_prod_beta)

lemma of_int_exact_weightSum:
  "word_of_int (exact_weightSum cfg) = spec_weightSum cfg"
  unfolding exact_weightSum_def spec_weightSum_def
  by (induction cfg) (auto simp add: case_prod_beta)

lemma sint_spec_nodeScoreSum:
  assumes "- 9223372036854775808 \<le> exact_nodeScoreSum cfg mode allocable"
    and "exact_nodeScoreSum cfg mode allocable < 9223372036854775808"
  shows "sint (spec_nodeScoreSum cfg mode allocable) = exact_nodeScoreSum cfg mode allocable"
  using sint64_of_int [OF assms] by (simp only: of_int_exact_nodeScoreSum)

lemma sint_spec_weightSum:
  assumes "- 9223372036854775808 \<le> exact_weightSum cfg"
    and "exact_weightSum cfg < 9223372036854775808"
  shows "sint (spec_weightSum cfg) = exact_weightSum cfg"
  using sint64_of_int [OF assms] by (simp only: of_int_exact_weightSum)

lemma resourceScorer_exact_numerator:
  assumes "mode = config_Least \<or> mode = config_Most"
    and "0 <s spec_weightSum cfg"
    and "- 9223372036854775808 \<le> exact_nodeScoreSum cfg mode allocable"
    and "exact_nodeScoreSum cfg mode allocable < 9223372036854775808"
  shows "\<exists>r. resourceScorer cfg mode requested allocable = Inr r
           \<and> sint r = exact_nodeScoreSum cfg mode allocable sdiv sint (spec_weightSum cfg)"
proof -
  have n: "sint (spec_nodeScoreSum cfg mode allocable) = exact_nodeScoreSum cfg mode allocable"
    using assms(3,4) by (intro sint_spec_nodeScoreSum)
  from assms(2) have pos: "0 < sint (spec_weightSum cfg)" by (simp add: word_sless_alt)
  then have nz: "spec_weightSum cfg \<noteq> 0" by auto
  have "sint (quo (spec_nodeScoreSum cfg mode allocable) (spec_weightSum cfg)) =
      exact_nodeScoreSum cfg mode allocable sdiv sint (spec_weightSum cfg)"
    by (simp only: sint_quo_pos [OF pos] n)
  with nz show ?thesis
    by (simp add: resourceScorer_spec [OF assms(1)] go_div_def)
qed

lemma resourceScorer_exact:
  assumes "mode = config_Least \<or> mode = config_Most"
    and "0 < exact_weightSum cfg" and "exact_weightSum cfg < 9223372036854775808"
    and "- 9223372036854775808 \<le> exact_nodeScoreSum cfg mode allocable"
    and "exact_nodeScoreSum cfg mode allocable < 9223372036854775808"
  shows "\<exists>r. resourceScorer cfg mode requested allocable = Inr r
           \<and> sint r = exact_nodeScoreSum cfg mode allocable sdiv exact_weightSum cfg"
proof -
  have w: "sint (spec_weightSum cfg) = exact_weightSum cfg"
    using assms(2,3) by (intro sint_spec_weightSum) simp_all
  with assms(2) have "0 <s spec_weightSum cfg" by (simp add: word_sless_alt)
  from resourceScorer_exact_numerator [OF assms(1) this assms(4,5)] w show ?thesis
    by simp
qed

text \<open>
  Claim C1, as amended. For mode \<open>Least\<close> or \<open>Most\<close>, every map of weights and every
  allocatable map, the scorer returns the sum of \<open>s * capacity * weight\<close> divided by the
  sum of the weights, both sums and the truncating quotient taken in wrapping 64-bit
  arithmetic, whenever that sum of weights is not zero, and panics with a division by
  zero when it is zero; a resource absent from the allocatable map counts with capacity 0.
  Whenever the mathematical sum of the weights is positive and both mathematical sums fit
  into 64 bits, the result is the mathematical quotient truncated towards zero. The
  witness evaluates the two nodes of the scenario: \<open>-6\<close> and \<open>-2\<close>.
\<close>

theorem resourceScorer_weighted_quotient:
  assumes "mode = config_Least \<or> mode = config_Most"
  shows "resourceScorer cfg mode requested allocable =
           (if spec_weightSum cfg = 0 then Inl DivideByZero
            else Inr (quo (spec_nodeScoreSum cfg mode allocable) (spec_weightSum cfg)))
         \<and> (0 < exact_weightSum cfg \<and> exact_weightSum cfg < 9223372036854775808
            \<and> - 9223372036854775808 \<le> exact_nodeScoreSum cfg mode allocable
            \<and> exact_nodeScoreSum cfg mode allocable < 9223372036854775808 \<longrightarrow>
            (\<exists>r. resourceScorer cfg mode requested allocable = Inr r
               \<and> sint r = exact_nodeScoreSum cfg mode allocable sdiv exact_weightSum cfg))"
proof (intro conjI impI)
  show "resourceScorer cfg mode requested allocable =
           (if spec_weightSum cfg = 0 then Inl DivideByZero
            else Inr (quo (spec_nodeScoreSum cfg mode allocable) (spec_weightSum cfg)))"
    by (simp add: resourceScorer_spec [OF assms] go_div_def)
next
  assume "0 < exact_weightSum cfg \<and> exact_weightSum cfg < 9223372036854775808
            \<and> - 9223372036854775808 \<le> exact_nodeScoreSum cfg mode allocable
            \<and> exact_nodeScoreSum cfg mode allocable < 9223372036854775808"
  with assms show "\<exists>r. resourceScorer cfg mode requested allocable = Inr r
               \<and> sint r = exact_nodeScoreSum cfg mode allocable sdiv exact_weightSum cfg"
    by (intro resourceScorer_exact) simp_all
qed

theorem resourceScorer_weighted_quotient_witness:
  "exact_weightSum [(''cpu'', 1), (''memory'', 1)] = 2
   \<and> exact_nodeScoreSum [(''cpu'', 1), (''memory'', 1)] config_Least
        [''cpu'' \<mapsto> 4, ''memory'' \<mapsto> 8] = - 12
   \<and> resourceScorer [(''cpu'', 1), (''memory'', 1)] config_Least Map.empty
        [''cpu'' \<mapsto> 4, ''memory'' \<mapsto> 8] = Inr (- 6)
   \<and> resourceScorer [(''cpu'', 1), (''memory'', 1)] config_Least Map.empty
        [''cpu'' \<mapsto> 2, ''memory'' \<mapsto> 2] = Inr (- 2)"
  using resourceScorer_weighted_quotient
    [of config_Least "[(''cpu'', 1), (''memory'', 1)]" Map.empty "[''cpu'' \<mapsto> 4, ''memory'' \<mapsto> 8]"]
    resourceScorer_weighted_quotient
    [of config_Least "[(''cpu'', 1), (''memory'', 1)]" Map.empty "[''cpu'' \<mapsto> 2, ''memory'' \<mapsto> 2]"]
  by (simp add: spec_weightSum_def spec_nodeScoreSum_def exact_weightSum_def exact_nodeScoreSum_def
      valueAt_def quo_def)

text \<open>
  Positive weights alone do not keep the divisor away from zero: four weights of
  \<open>2 ^ 62\<close> sum to \<open>2 ^ 64\<close>, which wraps around to 0, and the scorer panics.
\<close>

theorem resourceScorer_wrapped_weights_counterexample:
  "(0 :: int64) <s 4611686018427387904
   \<and> resourceScorer
       [(''cpu'', 4611686018427387904), (''memory'', 4611686018427387904),
        (''pods'', 4611686018427387904), (''ephemeral-storage'', 4611686018427387904)]
       config_Least Map.empty [''cpu'' \<mapsto> 4, ''memory'' \<mapsto> 8] = Inl DivideByZero"
  by (simp add: resourceScorer_def go_div_def word_sless_alt)

section \<open>Monotonicity in one capacity\<close>

lemma exact_nodeScoreSum_zero:
  assumes "\<forall>r\<in>fst ` set cfg. valueAt a r = 0"
  shows "exact_nodeScoreSum cfg mode a = 0"
  using assms unfolding exact_nodeScoreSum_def
  by (induction cfg) auto

lemma exact_nodeScoreSum_single:
  assumes "distinct (map fst cfg)" and "(r0, w0) \<in> set cfg"
    and "\<forall>r\<in>fst ` set cfg. r \<noteq> r0 \<longrightarrow> valueAt a r = 0"
  shows "exact_nodeScoreSum cfg mode a =
           (if mode = config_Least then - 1 else 1) * sint (valueAt a r0) * sint w0"
  using assms
proof (induction cfg)
  case Nil
  then show ?case by simp
next
  case (Cons e cfg)
  obtain r w where e: "e = (r, w)" by (cases e)
  have step: "exact_nodeScoreSum (e # cfg) mode a =
      (if mode = config_Least then - 1 else 1) * sint (valueAt a r) * sint w
      + exact_nodeScoreSum cfg mode a"
    by (simp add: exact_nodeScoreSum_def e)
  show ?case
  proof (cases "r = r0")
    case True
    with Cons.prems(1) e have notin: "r0 \<notin> fst ` set cfg" by simp
    with Cons.prems(2) e True have "w = w0" by force
    moreover have "\<forall>r\<in>fst ` set cfg. valueAt a r = 0"
    proof
      fix r' assume r': "r' \<in> fst ` set cfg"
      with notin have "r' \<noteq> r0" by blast
      with r' Cons.prems(3) show "valueAt a r' = 0" by auto
    qed
    then have "exact_nodeScoreSum cfg mode a = 0" by (rule exact_nodeScoreSum_zero)
    ultimately show ?thesis using True by (simp add: step)
  next
    case False
    from Cons.prems(1) have "distinct (map fst cfg)" by simp
    moreover from False Cons.prems(2) e have "(r0, w0) \<in> set cfg" by auto
    moreover from Cons.prems(3) have "\<forall>r\<in>fst ` set cfg. r \<noteq> r0 \<longrightarrow> valueAt a r = 0" by simp
    ultimately have "exact_nodeScoreSum cfg mode a =
           (if mode = config_Least then - 1 else 1) * sint (valueAt a r0) * sint w0"
      by (rule Cons.IH)
    moreover from False Cons.prems(3) e have "valueAt a r = 0" by simp
    ultimately show ?thesis by (simp add: step)
  qed
qed

text \<open>
  Claim C7, as amended. For a map (one entry per resource name) in which \<open>r0\<close> has the
  positive weight \<open>w0\<close> and every other configured resource has capacity 0 in both
  allocatable maps, with a positive 64-bit weight sum, and with capacities of \<open>r0\<close> whose
  products with \<open>w0\<close> lie strictly between \<open>- (2 ^ 63)\<close> and \<open>2 ^ 63\<close>, so that neither
  the product nor its negation wraps around: raising the capacity of \<open>r0\<close> never lowers
  the score under \<open>Most\<close> and never raises it under \<open>Least\<close>.
\<close>

theorem resourceScorer_monotone:
  assumes "distinct (map fst cfg)" and "(r0, w0) \<in> set cfg" and "0 <s w0"
    and "0 <s spec_weightSum cfg"
    and "\<forall>r\<in>fst ` set cfg. r \<noteq> r0 \<longrightarrow> valueAt a1 r = 0"
    and "\<forall>r\<in>fst ` set cfg. r \<noteq> r0 \<longrightarrow> valueAt a2 r = 0"
    and "valueAt a1 r0 \<le>s valueAt a2 r0"
    and "- 9223372036854775808 < sint (valueAt a1 r0) * sint w0"
    and "sint (valueAt a2 r0) * sint w0 < 9223372036854775808"
  shows "(\<exists>s1 s2. resourceScorer cfg config_Most requested a1 = Inr s1
            \<and> resourceScorer cfg config_Most requested a2 = Inr s2 \<and> s1 \<le>s s2)
       \<and> (\<exists>s1 s2. resourceScorer cfg config_Least requested a1 = Inr s1
            \<and> resourceScorer cfg config_Least requested a2 = Inr s2 \<and> s2 \<le>s s1)"
proof -
  let ?c1 = "sint (valueAt a1 r0)" and ?c2 = "sint (valueAt a2 r0)" and ?w = "sint w0"
  let ?W = "sint (spec_weightSum cfg)"
  from assms(3) have wpos: "0 < ?w" by (simp add: word_sless_alt)
  from assms(4) have Wpos: "0 < ?W" by (simp add: word_sless_alt)
  from assms(7) have "?c1 \<le> ?c2" by (simp add: word_sle_eq)
  with wpos have le: "?c1 * ?w \<le> ?c2 * ?w" by (simp add: mult_right_mono)
  have ne: "config_Most \<noteq> config_Least" by (simp add: config_Most_def config_Least_def)
  have m1: "exact_nodeScoreSum cfg config_Most a1 = ?c1 * ?w"
    using exact_nodeScoreSum_single [OF assms(1,2,5), of config_Most] ne by simp
  have m2: "exact_nodeScoreSum cfg config_Most a2 = ?c2 * ?w"
    using exact_nodeScoreSum_single [OF assms(1,2,6), of config_Most] ne by simp
  have l1: "exact_nodeScoreSum cfg config_Least a1 = - (?c1 * ?w)"
    using exact_nodeScoreSum_single [OF assms(1,2,5), of config_Least] by simp
  have l2: "exact_nodeScoreSum cfg config_Least a2 = - (?c2 * ?w)"
    using exact_nodeScoreSum_single [OF assms(1,2,6), of config_Least] by simp
  obtain s1 where s1: "resourceScorer cfg config_Most requested a1 = Inr s1"
      "sint s1 = (?c1 * ?w) sdiv ?W"
    using resourceScorer_exact_numerator [of config_Most cfg a1 requested] assms(4,8,9) le m1
    by auto
  obtain s2 where s2: "resourceScorer cfg config_Most requested a2 = Inr s2"
      "sint s2 = (?c2 * ?w) sdiv ?W"
    using resourceScorer_exact_numerator [of config_Most cfg a2 requested] assms(4,8,9) le m2
    by auto
  obtain t1 where t1: "resourceScorer cfg config_Least requested a1 = Inr t1"
      "sint t1 = (- (?c1 * ?w)) sdiv ?W"
    using resourceScorer_exact_numerator [of config_Least cfg a1 requested] assms(4,8,9) le l1
    by auto
  obtain t2 where t2: "resourceScorer cfg config_Least requested a2 = Inr t2"
      "sint t2 = (- (?c2 * ?w)) sdiv ?W"
    using resourceScorer_exact_numerator [of config_Least cfg a2 requested] assms(4,8,9) le l2
    by auto
  have "s1 \<le>s s2"
    using sdiv_int_mono [OF Wpos le] by (simp add: word_sle_eq s1(2) s2(2))
  moreover have "t2 \<le>s t1"
    using sdiv_int_mono [OF Wpos, of "- (?c2 * ?w)" "- (?c1 * ?w)"] le
    by (simp add: word_sle_eq t1(2) t2(2))
  ultimately show ?thesis using s1(1) s2(1) t1(1) t2(1) by simp
qed

theorem resourceScorer_monotone_witness:
  "distinct (map fst [(''cpu'', 2 :: int64), (''memory'', 3)])
   \<and> (''cpu'', 2) \<in> set [(''cpu'', 2 :: int64), (''memory'', 3)]
   \<and> 0 <s spec_weightSum [(''cpu'', 2), (''memory'', 3)]
   \<and> valueAt [''cpu'' \<mapsto> 4] ''cpu'' \<le>s valueAt [''cpu'' \<mapsto> 9] ''cpu''
   \<and> resourceScorer [(''cpu'', 2), (''memory'', 3)] config_Most Map.empty [''cpu'' \<mapsto> 4] = Inr 1
   \<and> resourceScorer [(''cpu'', 2), (''memory'', 3)] config_Most Map.empty [''cpu'' \<mapsto> 9] = Inr 3
   \<and> resourceScorer [(''cpu'', 2), (''memory'', 3)] config_Least Map.empty [''cpu'' \<mapsto> 4] = Inr (- 1)
   \<and> resourceScorer [(''cpu'', 2), (''memory'', 3)] config_Least Map.empty [''cpu'' \<mapsto> 9] = Inr (- 3)
   \<and> (\<exists>s1 s2. resourceScorer [(''cpu'', 2), (''memory'', 3)] config_Most Map.empty [''cpu'' \<mapsto> 4] = Inr s1
         \<and> resourceScorer [(''cpu'', 2), (''memory'', 3)] config_Most Map.empty [''cpu'' \<mapsto> 9] = Inr s2
         \<and> s1 \<le>s s2)
   \<and> (\<exists>s1 s2. resourceScorer [(''cpu'', 2), (''memory'', 3)] config_Least Map.empty [''cpu'' \<mapsto> 4] = Inr s1
         \<and> resourceScorer [(''cpu'', 2), (''memory'', 3)] config_Least Map.empty [''cpu'' \<mapsto> 9] = Inr s2
         \<and> s2 \<le>s s1)"
proof -
  have h: "distinct (map fst [(''cpu'', 2 :: int64), (''memory'', 3)])"
    "(''cpu'', 2) \<in> set [(''cpu'', 2 :: int64), (''memory'', 3)]"
    "(0 :: int64) <s 2"
    "0 <s spec_weightSum [(''cpu'', 2), (''memory'', 3)]"
    "\<forall>r\<in>fst ` set [(''cpu'', 2 :: int64), (''memory'', 3)]. r \<noteq> ''cpu'' \<longrightarrow> valueAt [''cpu'' \<mapsto> 4] r = 0"
    "\<forall>r\<in>fst ` set [(''cpu'', 2 :: int64), (''memory'', 3)]. r \<noteq> ''cpu'' \<longrightarrow> valueAt [''cpu'' \<mapsto> 9] r = 0"
    "valueAt [''cpu'' \<mapsto> 4] ''cpu'' \<le>s valueAt [''cpu'' \<mapsto> 9] ''cpu''"
    "- 9223372036854775808 < sint (valueAt [''cpu'' \<mapsto> 4] ''cpu'') * sint (2 :: int64)"
    "sint (valueAt [''cpu'' \<mapsto> 9] ''cpu'') * sint (2 :: int64) < 9223372036854775808"
    by (simp_all add: spec_weightSum_def valueAt_def word_sless_alt word_sle_eq)
  have v: "resourceScorer [(''cpu'', 2), (''memory'', 3)] config_Most Map.empty [''cpu'' \<mapsto> 4] = Inr 1"
    "resourceScorer [(''cpu'', 2), (''memory'', 3)] config_Most Map.empty [''cpu'' \<mapsto> 9] = Inr 3"
    "resourceScorer [(''cpu'', 2), (''memory'', 3)] config_Least Map.empty [''cpu'' \<mapsto> 4] = Inr (- 1)"
    "resourceScorer [(''cpu'', 2), (''memory'', 3)] config_Least Map.empty [''cpu'' \<mapsto> 9] = Inr (- 3)"
    by (simp_all add: resourceScorer_def go_div_def quo_def score_def valueAt_def
        config_Least_def config_Most_def)
  from resourceScorer_monotone [OF h, of Map.empty] h(1,2,4,7) v show ?thesis
    by (simp only: simp_thms)
qed

text \<open>
  Without the bound on the product the claim fails: with the weight \<open>2 ^ 20\<close> for memory,
  raising the capacity from \<open>2 ^ 42\<close> to \<open>2 ^ 43\<close> makes the product wrap around, and the
  score under \<open>Most\<close> drops from \<open>2 ^ 42\<close> to \<open>- (2 ^ 43)\<close>.
\<close>

theorem resourceScorer_monotone_counterexample:
  "valueAt [''memory'' \<mapsto> 4398046511104] ''memory'' \<le>s valueAt [''memory'' \<mapsto> 8796093022208] ''memory''
   \<and> resourceScorer [(''memory'', 1048576)] config_Most Map.empty [''memory'' \<mapsto> 4398046511104]
       = Inr 4398046511104
   \<and> resourceScorer [(''memory'', 1048576)] config_Most Map.empty [''memory'' \<mapsto> 8796093022208]
       = Inr (- 8796093022208)
   \<and> (- 8796093022208 :: int64) <s 4398046511104"
  by (simp add: resourceScorer_def go_div_def quo_def score_def valueAt_def
      config_Least_def config_Most_def word_sless_alt word_sle_eq)

section \<open>Independence of the iteration order\<close>

text \<open>
  Claim C9. Two enumerations of the same map (distinct keys, the same key-value
  pairs) give the same result, whatever the mode and the allocatable map; the result
  includes the panic of a zero divisor. The scorer is a function of its inputs, so two
  evaluations on identical inputs agree.
\<close>

theorem resourceScorer_order_independent:
  assumes "distinct (map fst cfg)" and "distinct (map fst cfg')" and "map_of cfg = map_of cfg'"
  shows "resourceScorer cfg mode requested allocable = resourceScorer cfg' mode requested allocable"
proof -
  from assms have "set cfg = set cfg'" by (simp add: map_of_inject_set)
  moreover from assms(1,2) have "distinct cfg" "distinct cfg'" by (simp_all add: distinct_map)
  ultimately have m: "mset cfg = mset cfg'"
    by (simp add: set_eq_iff_mset_eq_distinct)
  have "sum_list (map f cfg) = sum_list (map f cfg')" for f :: "ResourceName \<times> int64 \<Rightarrow> int64"
  proof -
    have "mset (map f cfg) = mset (map f cfg')" using m by simp
    then have "sum_mset (mset (map f cfg)) = sum_mset (mset (map f cfg'))" by (simp only:)
    then show ?thesis by (simp only: sum_mset_sum_list)
  qed
  then show ?thesis by (simp only: resourceScorer_closed)
qed

theorem resourceScorer_order_independent_witness:
  "distinct (map fst [(''cpu'', 1 :: int64), (''memory'', 2)])
   \<and> distinct (map fst [(''memory'', 2 :: int64), (''cpu'', 1)])
   \<and> map_of [(''cpu'', 1 :: int64), (''memory'', 2)] = map_of [(''memory'', 2), (''cpu'', 1)]
   \<and> resourceScorer [(''cpu'', 1), (''memory'', 2)] config_Least Map.empty
        [''cpu'' \<mapsto> 4, ''memory'' \<mapsto> 8]
     = resourceScorer [(''memory'', 2), (''cpu'', 1)] config_Least Map.empty
        [''cpu'' \<mapsto> 4, ''memory'' \<mapsto> 8]"
proof -
  have d: "distinct (map fst [(''cpu'', 1 :: int64), (''memory'', 2)])"
    "distinct (map fst [(''memory'', 2 :: int64), (''cpu'', 1)])"
    by simp_all
  have m: "map_of [(''cpu'', 1 :: int64), (''memory'', 2)] = map_of [(''memory'', 2), (''cpu'', 1)]"
    by (rule ext) simp
  from resourceScorer_order_independent [OF d m] d m show ?thesis
    by (simp only: simp_thms)
qed

section \<open>Rejection of weights that are not positive\<close>

lemma validateResources_Some:
  "\<exists>r\<in>set resources. Weight r \<le>s 0 \<Longrightarrow>
   \<exists>r\<in>set resources. Weight r \<le>s 0
      \<and> validateResources resources = Some (InvalidWeight (Name r) (Weight r))"
  by (induction resources) auto

lemma validateResources_None:
  "validateResources resources = None \<longleftrightarrow> (\<forall>r\<in>set resources. 0 <s Weight r)"
  by (induction resources) (auto simp add: word_sle_eq word_sless_alt)

text \<open>
  Claim C10. For every supplied resource list with some weight that is zero or negative,
  \<open>NewAllocatable\<close> returns an error that carries the name and the weight of an offending
  resource (the first one), and no plugin value. The validation called by
  \<open>NewAllocatable\<close> is the one modelled from the specification.
\<close>

theorem NewAllocatable_rejects_nonpositive_weight:
  assumes "\<exists>r\<in>set (Resources args). Weight r \<le>s 0"
  shows "\<exists>r\<in>set (Resources args). Weight r \<le>s 0
           \<and> NewAllocatable defaultResourcesToWeightMap (Some (AllocatableArgs args))
               = Inl (InvalidWeight (Name r) (Weight r))"
proof -
  from validateResources_Some [OF assms] obtain r where r: "r \<in> set (Resources args)"
    "Weight r \<le>s 0" "validateResources (Resources args) = Some (InvalidWeight (Name r) (Weight r))"
    by blast
  then have "NewAllocatable defaultResourcesToWeightMap (Some (AllocatableArgs args))
               = Inl (InvalidWeight (Name r) (Weight r))"
    by (simp add: NewAllocatable_def ValidateNodeResourcesAllocatableArgs_def Let_def)
  with r(1,2) show ?thesis by blast
qed

theorem NewAllocatable_rejects_nonpositive_weight_witness:
  "NewAllocatable [(''cpu'', 1), (''memory'', 1)]
     (Some (AllocatableArgs \<lparr>Resources = [\<lparr>Name = ''cpu'', Weight = 1\<rparr>,
                                            \<lparr>Name = ''memory'', Weight = 0\<rparr>,
                                            \<lparr>Name = ''pods'', Weight = - 3\<rparr>],
                              Mode = ''Most''\<rparr>))
   = Inl (InvalidWeight ''memory'' 0)"
  using NewAllocatable_rejects_nonpositive_weight
    [of "\<lparr>Resources = [\<lparr>Name = ''cpu'', Weight = 1\<rparr>, \<lparr>Name = ''memory'', Weight = 0\<rparr>,
                        \<lparr>Name = ''pods'', Weight = - 3\<rparr>], Mode = ''Most''\<rparr>"
        "[(''cpu'', 1), (''memory'', 1)]"]
  by (auto simp add: word_sle_eq NewAllocatable_def ValidateNodeResourcesAllocatableArgs_def)

section \<open>The weights of a constructed plugin\<close>

lemma set_update_subset: "set (AList.update k v al) \<subseteq> insert (k, v) (set al)"
  by (induction al) auto

lemma storeResources_nonempty: "m \<noteq> [] \<Longrightarrow> storeResources resources m \<noteq> []"
  by (induction resources arbitrary: m) simp_all

lemma storeResources_weights:
  "(r, w) \<in> set (storeResources resources m) \<Longrightarrow>
   (r, w) \<in> set m \<or> (\<exists>x\<in>set resources. w = Weight x)"
proof (induction resources arbitrary: m)
  case Nil
  then show ?case by simp
next
  case (Cons x resources)
  from Cons.prems have "(r, w) \<in> set (storeResources resources (AList.update (Name x) (Weight x) m))"
    by simp
  from Cons.IH [OF this] set_update_subset [of "Name x" "Weight x" m] show ?case by auto
qed

lemma storeResources_distinct:
  "distinct (map fst m) \<Longrightarrow> distinct (map fst (storeResources resources m))"
  by (induction resources arbitrary: m) (simp_all add: distinct_update)

lemma exact_weightSum_pos:
  assumes "cfg \<noteq> []" and "\<forall>(r, w)\<in>set cfg. 0 <s w"
  shows "0 < exact_weightSum cfg"
  using assms unfolding exact_weightSum_def
proof (induction cfg)
  case Nil
  then show ?case by simp
next
  case (Cons e cfg)
  obtain r w where e: "e = (r, w)" by (cases e)
  with Cons.prems have w: "0 < sint w" by (simp add: word_sless_alt)
  have "0 \<le> sum_list (map (\<lambda>(resource, weight). sint weight) cfg)"
  proof (cases "cfg = []")
    case True
    then show ?thesis by simp
  next
    case False
    with Cons show ?thesis by simp
  qed
  with w e show ?case by simp
qed

lemma NewAllocatable_Inr_cases:
  assumes "NewAllocatable dflt allocArgs = Inr p"
  shows "(resourceToWeightMap p = dflt
          \<or> (\<exists>args. allocArgs = Some (AllocatableArgs args) \<and> Resources args \<noteq> []
                \<and> (\<forall>r\<in>set (Resources args). 0 <s Weight r)
                \<and> resourceToWeightMap p = storeResources (Resources args) []))
         \<and> (\<exists>mode. scorer p = resourceScorer (resourceToWeightMap p) mode)"
proof (cases allocArgs)
  case None
  with assms show ?thesis by (auto simp add: NewAllocatable_def mkAllocatable_def)
next
  case (Some obj)
  show ?thesis
  proof (cases obj)
    case (OtherObject t)
    with Some assms show ?thesis by (simp add: NewAllocatable_def)
  next
    case (AllocatableArgs args)
    with Some assms show ?thesis
      by (auto simp add: NewAllocatable_def mkAllocatable_def Let_def
          ValidateNodeResourcesAllocatableArgs_def validateResources_None
          split: option.splits if_splits)
  qed
qed

text \<open>
  Claim C5, as amended. For every plugin value returned by \<open>NewAllocatable\<close>, given a
  default table that is non-empty with positive weights, the plugin's map is non-empty
  with every weight positive; and whenever the mathematical sum of its weights is below
  \<open>2 ^ 63\<close>, the 64-bit sum of the weights is positive and the scorer does not divide by
  zero.
\<close>

theorem NewAllocatable_weights_positive:
  assumes "NewAllocatable dflt allocArgs = Inr p"
    and "dflt \<noteq> []" and "\<forall>(r, w)\<in>set dflt. 0 <s w"
  shows "resourceToWeightMap p \<noteq> []
       \<and> (\<forall>(r, w)\<in>set (resourceToWeightMap p). 0 <s w)
       \<and> (exact_weightSum (resourceToWeightMap p) < 9223372036854775808 \<longrightarrow>
            0 <s spec_weightSum (resourceToWeightMap p)
            \<and> scorer p requested allocable \<noteq> Inl DivideByZero)"
proof -
  let ?cfg = "resourceToWeightMap p"
  from NewAllocatable_Inr_cases [OF assms(1)]
  have src: "?cfg = dflt
          \<or> (\<exists>args. allocArgs = Some (AllocatableArgs args) \<and> Resources args \<noteq> []
                \<and> (\<forall>r\<in>set (Resources args). 0 <s Weight r)
                \<and> ?cfg = storeResources (Resources args) [])"
    and sc: "\<exists>mode. scorer p = resourceScorer ?cfg mode"
    by simp_all
  have ne: "?cfg \<noteq> []"
  proof -
    have "storeResources resources [] \<noteq> []" if "resources \<noteq> []" for resources
      using that by (cases resources) (simp_all add: storeResources_nonempty)
    with src assms(2) show ?thesis by auto
  qed
  have pos: "\<forall>(r, w)\<in>set ?cfg. 0 <s w"
  proof -
    have "0 <s w" if "(r, w) \<in> set (storeResources resources [])"
      and "\<forall>x\<in>set resources. 0 <s Weight x" for r w resources
      using storeResources_weights [OF that(1)] that(2) by auto
    with src assms(3) show ?thesis by auto
  qed
  have "0 <s spec_weightSum ?cfg \<and> scorer p requested allocable \<noteq> Inl DivideByZero"
    if b: "exact_weightSum ?cfg < 9223372036854775808"
  proof -
    from exact_weightSum_pos [OF ne pos] have e: "0 < exact_weightSum ?cfg" .
    with b have s: "sint (spec_weightSum ?cfg) = exact_weightSum ?cfg"
      by (intro sint_spec_weightSum) simp_all
    with e have w: "0 <s spec_weightSum ?cfg" by (simp add: word_sless_alt)
    then have "spec_weightSum ?cfg \<noteq> 0" by auto
    moreover from sc obtain mode where "scorer p = resourceScorer ?cfg mode" by blast
    ultimately have "scorer p requested allocable \<noteq> Inl DivideByZero"
      by (simp add: resourceScorer_closed go_div_def spec_weightSum_def)
    with w show ?thesis by simp
  qed
  with ne pos show ?thesis by simp
qed

theorem NewAllocatable_weights_positive_witness:
  "NewAllocatable [(''cpu'', 1), (''memory'', 1)]
     (Some (AllocatableArgs \<lparr>Resources = [\<lparr>Name = ''cpu'', Weight = 2\<rparr>,
                                            \<lparr>Name = ''memory'', Weight = 3\<rparr>],
                              Mode = ''Most''\<rparr>))
     = Inr (mkAllocatable [(''cpu'', 2), (''memory'', 3)] ''Most'')
   \<and> resourceToWeightMap (mkAllocatable [(''cpu'', 2), (''memory'', 3)] ''Most'')
       = [(''cpu'', 2), (''memory'', 3)]
   \<and> exact_weightSum [(''cpu'', 2), (''memory'', 3)] = 5
   \<and> 0 <s spec_weightSum [(''cpu'', 2), (''memory'', 3)]
   \<and> scorer (mkAllocatable [(''cpu'', 2), (''memory'', 3)] ''Most'') Map.empty [''cpu'' \<mapsto> 4]
       \<noteq> Inl DivideByZero"
proof -
  have c: "NewAllocatable [(''cpu'', 1), (''memory'', 1)]
     (Some (AllocatableArgs \<lparr>Resources = [\<lparr>Name = ''cpu'', Weight = 2\<rparr>,
                                            \<lparr>Name = ''memory'', Weight = 3\<rparr>],
                              Mode = ''Most''\<rparr>))
     = Inr (mkAllocatable [(''cpu'', 2), (''memory'', 3)] ''Most'')"
    by (simp add: NewAllocatable_def ValidateNodeResourcesAllocatableArgs_def word_sle_eq)
  have d: "[(''cpu'', 1 :: int64), (''memory'', 1)] \<noteq> []"
    "\<forall>(r, w)\<in>set [(''cpu'', 1 :: int64), (''memory'', 1)]. 0 <s w"
    by (simp_all add: word_sless_alt)
  have m: "resourceToWeightMap (mkAllocatable [(''cpu'', 2), (''memory'', 3)] ''Most'')
       = [(''cpu'', 2), (''memory'', 3)]"
    by (simp add: mkAllocatable_def)
  have e: "exact_weightSum [(''cpu'', 2), (''memory'', 3)] = 5"
    by (simp add: exact_weightSum_def)
  from NewAllocatable_weights_positive [OF c d, of Map.empty "[''cpu'' \<mapsto> 4]"] c m e
  show ?thesis by simp
qed

text \<open>
  Without the bound the 64-bit sum can wrap around to zero: four validated weights of
  \<open>2 ^ 62\<close> are accepted, and the scorer of the resulting plugin divides by zero.
\<close>

theorem NewAllocatable_wrapped_weights_counterexample:
  "(0 :: int64) <s 4611686018427387904
   \<and> NewAllocatable [(''cpu'', 1), (''memory'', 1)]
     (Some (AllocatableArgs
       \<lparr>Resources = [\<lparr>Name = ''cpu'', Weight = 4611686018427387904\<rparr>,
                     \<lparr>Name = ''memory'', Weight = 4611686018427387904\<rparr>,
                     \<lparr>Name = ''pods'', Weight = 4611686018427387904\<rparr>,
                     \<lparr>Name = ''ephemeral-storage'', Weight = 4611686018427387904\<rparr>],
        Mode = ''Least''\<rparr>))
     = Inr (mkAllocatable
             [(''cpu'', 4611686018427387904), (''memory'', 4611686018427387904),
              (''pods'', 4611686018427387904), (''ephemeral-storage'', 4611686018427387904)]
             ''Least'')
   \<and> scorer (mkAllocatable
             [(''cpu'', 4611686018427387904), (''memory'', 4611686018427387904),
              (''pods'', 4611686018427387904), (''ephemeral-storage'', 4611686018427387904)]
             ''Least'') Map.empty [''cpu'' \<mapsto> 4, ''memory'' \<mapsto> 8]
     = Inl DivideByZero"
  by (simp add: NewAllocatable_def ValidateNodeResourcesAllocatableArgs_def mkAllocatable_def
      resourceScorer_def go_div_def word_sle_eq word_sless_alt)

section \<open>The mode of a plugin constructed without arguments\<close>

lemma score_empty_mode: "score capacity '''' = 0"
  by (simp add: score_def config_Least_def config_Most_def)

lemma scorerLoop_empty_mode:
  "scorerLoop allocable '''' cfg (ns, ws) = (ns, ws + sum_list (map snd cfg))"
  by (induction cfg arbitrary: ns ws) (auto simp add: score_empty_mode algebra_simps)

text \<open>
  Claim C4, evaluated at a nil argument object. \<open>NewAllocatable\<close> succeeds, but the mode
  of the plugin is the empty string, not \<open>Least\<close>: \<open>score\<close> matches neither mode and
  returns 0 for every resource, so every node scores 0 (or the scorer panics when the
  weights of the default table sum to zero). With the weights \<open>{cpu: 1, memory: 1}\<close> the
  node with allocatable \<open>{cpu: 4, memory: 8}\<close> scores 0, where mode \<open>Least\<close> gives \<open>-6\<close>.
\<close>

theorem NewAllocatable_nil_scores_zero:
  "NewAllocatable defaultResourcesToWeightMap None = Inr (mkAllocatable defaultResourcesToWeightMap '''')
   \<and> scorer (mkAllocatable defaultResourcesToWeightMap '''') requested allocable
       = (if spec_weightSum defaultResourcesToWeightMap = 0 then Inl DivideByZero else Inr 0)
   \<and> NewAllocatable [(''cpu'', 1), (''memory'', 1)] None
       = Inr (mkAllocatable [(''cpu'', 1), (''memory'', 1)] '''')
   \<and> scorer (mkAllocatable [(''cpu'', 1), (''memory'', 1)] '''') Map.empty
        [''cpu'' \<mapsto> 4, ''memory'' \<mapsto> 8] = Inr 0
   \<and> resourceScorer [(''cpu'', 1), (''memory'', 1)] config_Least Map.empty
        [''cpu'' \<mapsto> 4, ''memory'' \<mapsto> 8] = Inr (- 6)"
  by (simp add: NewAllocatable_def mkAllocatable_def resourceScorer_def scorerLoop_empty_mode
      go_div_def quo_def spec_weightSum_def score_def valueAt_def config_Least_def config_Most_def)

text \<open>
  The other path, an argument object whose mode is empty and whose resources pass the
  validation, does set the mode to \<open>Least\<close>.
\<close>

lemma NewAllocatable_empty_mode_args:
  assumes "Mode args = ''''" and "validateResources (Resources args) = None"
  shows "NewAllocatable defaultResourcesToWeightMap (Some (AllocatableArgs args))
           = Inr (mkAllocatable
                   (if Resources args \<noteq> [] then storeResources (Resources args) []
                    else defaultResourcesToWeightMap)
                   config_Least)"
  using assms
  by (simp add: NewAllocatable_def ValidateNodeResourcesAllocatableArgs_def Let_def)

end
